theory Spec2Isabelle
  imports Complex_Main "HOL-Library.Word"
begin

section \<open>The NDT-PSO SLAM node\<close>

text \<open>
  The development follows \<^verbatim>\<open>src/ndtpso_slam/src/ndtpso_slam_node.cpp\<close>: the scan
  callback \<^verbatim>\<open>scan_mathcher\<close>, the initialisation done by \<^verbatim>\<open>main\<close> and the
  publishing loop at the end of \<^verbatim>\<open>main\<close>. The node is compiled with
  \<^verbatim>\<open>SAVE_MAP_DATA_TO_FILE = true\<close>, \<^verbatim>\<open>SYNC_WITH_LASER_TOPIC = false\<close>,
  \<^verbatim>\<open>SYNC_WITH_ODOM = false\<close> and \<^verbatim>\<open>WAIT_FOR_TF = true\<close>; the model is the code
  that these switches select.

  Numbers of type \<^verbatim>\<open>double\<close> and \<^verbatim>\<open>float\<close> are modelled as real numbers; the
  integer types keep their width (\<^verbatim>\<open>int\<close> and \<^verbatim>\<open>unsigned int\<close> are 32-bit words,
  \<^verbatim>\<open>unsigned short\<close> is a 16-bit word). The calls to the clock and to
  \<^verbatim>\<open>ROS_INFO\<close> only produce log lines and are left out, together with the two time
  stamps \<^verbatim>\<open>start_time\<close> and \<^verbatim>\<open>last_call_time\<close> that feed them.
\<close>

subsection \<open>Data\<close>

text \<open>\<^verbatim>\<open>Eigen::Vector3d\<close>, used for a pose \<open>(x, y, \<theta>)\<close>.\<close>

record Vector3d =
  coord_x :: real
  coord_y :: real
  coord_z :: real

definition Vector3d_Zero :: Vector3d where
  "Vector3d_Zero = \<lparr>coord_x = 0, coord_y = 0, coord_z = 0\<rparr>"

text \<open>\<^verbatim>\<open>ros::Time\<close>: seconds and nanoseconds, both \<^verbatim>\<open>uint32\<close>.\<close>

record Time =
  sec :: "32 word"
  nsec :: "32 word"

definition Time_Zero :: Time where
  "Time_Zero = \<lparr>sec = 0, nsec = 0\<rparr>"

definition toSec :: "Time \<Rightarrow> real" where
  "toSec t = real (unat (sec t)) + real (unat (nsec t)) / 1000000000"

text \<open>
  The fields of \<^verbatim>\<open>sensor_msgs::LaserScan\<close> that the node reads
  (\<^verbatim>\<open>header.stamp\<close> is \<open>scan_stamp\<close>).
\<close>

record LaserScan =
  scan_stamp :: Time
  angle_min :: real
  angle_max :: real
  angle_increment :: real
  range_min :: real
  range_max :: real
  ranges :: "real list"

text \<open>\<^verbatim>\<open>tf::Quaternion\<close> and its \<^verbatim>\<open>setRPY\<close>, as the tf library defines it.\<close>

record Quaternion =
  quat_x :: real
  quat_y :: real
  quat_z :: real
  quat_w :: real

definition setRPY :: "real \<Rightarrow> real \<Rightarrow> real \<Rightarrow> Quaternion" where
  "setRPY roll pitch yaw =
     (let halfYaw = yaw * 0.5; halfPitch = pitch * 0.5; halfRoll = roll * 0.5;
          cosYaw = cos halfYaw; sinYaw = sin halfYaw;
          cosPitch = cos halfPitch; sinPitch = sin halfPitch;
          cosRoll = cos halfRoll; sinRoll = sin halfRoll
      in \<lparr>quat_x = sinRoll * cosPitch * cosYaw - cosRoll * sinPitch * sinYaw,
          quat_y = cosRoll * sinPitch * cosYaw + sinRoll * cosPitch * sinYaw,
          quat_z = cosRoll * cosPitch * sinYaw - sinRoll * sinPitch * cosYaw,
          quat_w = cosRoll * cosPitch * cosYaw + sinRoll * sinPitch * sinYaw\<rparr>)"

definition length2 :: "Quaternion \<Rightarrow> real" where
  "length2 q = quat_x q * quat_x q + quat_y q * quat_y q + quat_z q * quat_z q
                + quat_w q * quat_w q"

text \<open>
  \<^verbatim>\<open>geometry_msgs::PoseStamped\<close>, with the nested message fields written out
  (\<^verbatim>\<open>header.stamp\<close> is \<open>header_stamp\<close>, \<^verbatim>\<open>pose.position.x\<close> is \<open>position_x\<close>, and
  so on). A ROS message is constructed with every number zero and every string empty.
\<close>

record PoseStamped =
  header_seq :: "32 word"
  header_stamp :: Time
  header_frame_id :: string
  position_x :: real
  position_y :: real
  position_z :: real
  orientation_x :: real
  orientation_y :: real
  orientation_z :: real
  orientation_w :: real

definition PoseStamped_default :: PoseStamped where
  "PoseStamped_default =
     \<lparr>header_seq = 0, header_stamp = Time_Zero, header_frame_id = [],
      position_x = 0, position_y = 0, position_z = 0,
      orientation_x = 0, orientation_y = 0, orientation_z = 0, orientation_w = 0\<rparr>"

text \<open>The part of \<^verbatim>\<open>NDTPSOConfig\<close> that \<^verbatim>\<open>main\<close> fills in.\<close>

record NDTPSOConfig =
  num_threads :: "32 word"
  iterations :: "32 word"
  populationSize :: "32 word"

subsection \<open>The interface of the NDT frame\<close>

text \<open>
  The class \<^verbatim>\<open>NDTFrame\<close> is declared in \<^verbatim>\<open>ndtpso_slam/ndtframe.h\<close>, which is not
  among the sources. The node only constructs frames and calls five of their methods, so
  the class is a parameter of the model: a type \<open>'f\<close> of frame values and a record of the
  operations the node uses. A method that changes its object returns the changed frame;
  \<^verbatim>\<open>align\<close> returns the pose it found. The constructor takes the origin, the width
  and height, the cell side, the flag \<^verbatim>\<open>calculate_cells_params\<close> and, for the
  reference frame only, the configuration.
\<close>

record 'f NDTFrame_methods =
  NDTFrame_new :: "Vector3d \<Rightarrow> 16 word \<Rightarrow> 16 word \<Rightarrow> real \<Rightarrow> bool \<Rightarrow> NDTPSOConfig option \<Rightarrow> 'f"
  setTrans :: "'f \<Rightarrow> Vector3d \<Rightarrow> 'f"
  loadLaser :: "'f \<Rightarrow> real list \<Rightarrow> real \<Rightarrow> real \<Rightarrow> real \<Rightarrow> 'f"
  align :: "'f \<Rightarrow> Vector3d \<Rightarrow> 'f \<Rightarrow> Vector3d"
  update :: "'f \<Rightarrow> Vector3d \<Rightarrow> 'f \<Rightarrow> 'f"
  addPose :: "'f \<Rightarrow> real \<Rightarrow> Vector3d \<Rightarrow> 'f"

subsection \<open>The state of the node\<close>

text \<open>
  The file-level variables of the node and the function-local static \<^verbatim>\<open>iter_num\<close>.
  \<open>matcher_mutex\<close> is \<open>True\<close> while the mutex is locked.
\<close>

record 'f node_state =
  matcher_mutex :: bool
  param_frame_size :: "32 word"
  param_cell_side :: real
  first_iteration :: bool
  number_of_iters :: "32 word"
  previous_pose :: Vector3d
  trans_estimate :: Vector3d
  initial_pose :: Vector3d
  current_pose :: Vector3d
  current_frame :: 'f
  ref_frame :: 'f
  global_map :: 'f
  current_pub_pose :: PoseStamped
  iter_num :: "32 word"

text \<open>\<^verbatim>\<open>static_cast<unsigned short>\<close> of an \<^verbatim>\<open>int\<close>, and an \<^verbatim>\<open>int\<close> passed as a \<^verbatim>\<open>double\<close>.\<close>

definition to_ushort :: "32 word \<Rightarrow> 16 word" where
  "to_ushort n = ucast n"

definition int_to_double :: "32 word \<Rightarrow> real" where
  "int_to_double n = real_of_int (sint n)"

definition SAVE_DATA_TO_FILE_EACH_NUM_ITERS :: "32 word" where
  "SAVE_DATA_TO_FILE_EACH_NUM_ITERS = 10"

definition DEFAULT_PUBLISHED_POSE_FRAME_ID :: string where
  "DEFAULT_PUBLISHED_POSE_FRAME_ID = ''map''"

subsection \<open>The scan callback\<close>

text \<open>
  \<^verbatim>\<open>matcher_mutex.lock()\<close>: a call on a locked mutex does not return, which is the
  value \<open>None\<close>.
\<close>

definition mutex_lock :: "'f node_state \<Rightarrow> 'f node_state option" where
  "mutex_lock st = (if matcher_mutex st then None else Some (st\<lparr>matcher_mutex := True\<rparr>))"

definition mutex_unlock :: "'f node_state \<Rightarrow> 'f node_state" where
  "mutex_unlock st = st\<lparr>matcher_mutex := False\<rparr>"

text \<open>Lines 101--102: the scan is loaded into the current frame.\<close>

definition load_scan :: "'f NDTFrame_methods \<Rightarrow> LaserScan \<Rightarrow> 'f node_state \<Rightarrow> 'f node_state" where
  "load_scan m scan st =
     st\<lparr>current_frame :=
          loadLaser m (current_frame st) (ranges scan) (angle_min scan)
            (angle_increment scan) (range_max scan)\<rparr>"

text \<open>Lines 113--128: the first scan keeps the previous pose, every later one is aligned.\<close>

definition estimate_pose :: "'f NDTFrame_methods \<Rightarrow> 'f node_state \<Rightarrow> 'f node_state" where
  "estimate_pose m st =
     (if first_iteration st then st\<lparr>current_pose := previous_pose st\<rparr>
      else st\<lparr>current_pose := align m (ref_frame st) (previous_pose st) (current_frame st)\<rparr>)"

text \<open>Lines 130--131.\<close>

definition accept_pose :: "'f NDTFrame_methods \<Rightarrow> 'f node_state \<Rightarrow> 'f node_state" where
  "accept_pose m st =
     (let st1 = st\<lparr>previous_pose := current_pose st\<rparr>
      in st1\<lparr>ref_frame := update m (ref_frame st1) (current_pose st1) (current_frame st1)\<rparr>)"

text \<open>Lines 133--144 (\<^verbatim>\<open>SAVE_MAP_DATA_TO_FILE\<close>).\<close>

definition save_map_data :: "'f NDTFrame_methods \<Rightarrow> LaserScan \<Rightarrow> 'f node_state \<Rightarrow> 'f node_state" where
  "save_map_data m scan st =
     (let st1 = (if iter_num st = 0
                 then st\<lparr>global_map := update m (global_map st) (current_pose st) (current_frame st)\<rparr>
                 else st);
          st2 = st1\<lparr>iter_num := (iter_num st1 + 1) mod SAVE_DATA_TO_FILE_EACH_NUM_ITERS\<rparr>
      in st2\<lparr>global_map := addPose m (global_map st2) (toSec (scan_stamp scan)) (current_pose st2)\<rparr>)"

text \<open>Lines 148--159: the message that the publishing loop sends.\<close>

definition fill_pub_pose :: "LaserScan \<Rightarrow> 'f node_state \<Rightarrow> 'f node_state" where
  "fill_pub_pose scan st =
     (let q_ori = setRPY 0 0 (coord_z (current_pose st))
      in st\<lparr>current_pub_pose :=
             (current_pub_pose st)
               \<lparr>header_stamp := scan_stamp scan,
                header_frame_id := DEFAULT_PUBLISHED_POSE_FRAME_ID,
                position_x := coord_x (current_pose st),
                position_y := coord_y (current_pose st),
                position_z := 0,
                orientation_x := quat_x q_ori,
                orientation_y := quat_y q_ori,
                orientation_z := quat_z q_ori,
                orientation_w := quat_w q_ori\<rparr>\<rparr>)"

text \<open>Lines 164--167: the current frame is deleted and a new one is allocated.\<close>

definition reallocate_frame :: "'f NDTFrame_methods \<Rightarrow> 'f node_state \<Rightarrow> 'f node_state" where
  "reallocate_frame m st =
     st\<lparr>current_frame :=
          NDTFrame_new m (initial_pose st) (to_ushort (param_frame_size st))
            (to_ushort (param_frame_size st)) (int_to_double (param_frame_size st)) False None\<rparr>"

text \<open>Lines 172 and 181.\<close>

definition count_iteration :: "'f node_state \<Rightarrow> 'f node_state" where
  "count_iteration st =
     (let st1 = st\<lparr>number_of_iters := number_of_iters st + 1\<rparr>
      in st1\<lparr>first_iteration := False\<rparr>)"

text \<open>Lines 101--181: what the callback does while it holds the mutex.\<close>

definition alignment_cycle :: "'f NDTFrame_methods \<Rightarrow> LaserScan \<Rightarrow> 'f node_state \<Rightarrow> 'f node_state" where
  "alignment_cycle m scan st =
     count_iteration (reallocate_frame m (fill_pub_pose scan
       (save_map_data m scan (accept_pose m (estimate_pose m (load_scan m scan st))))))"

text \<open>
  The callback locks the mutex in its first statement and unlocks it in its last. It
  returns \<^verbatim>\<open>void\<close>: the value it hands to its caller is \<open>()\<close>, next to the state
  it leaves.
\<close>

definition scan_mathcher ::
  "'f NDTFrame_methods \<Rightarrow> LaserScan \<Rightarrow> 'f node_state \<Rightarrow> (unit \<times> 'f node_state) option" where
  "scan_mathcher m scan st =
     (case mutex_lock st of
        None \<Rightarrow> None
      | Some st0 \<Rightarrow> Some ((), mutex_unlock (alignment_cycle m scan st0)))"

text \<open>
  The local frame of a cycle that starts in state \<open>st\<close>: the current frame with the scan
  loaded, which is the frame that \<^verbatim>\<open>align\<close> and \<^verbatim>\<open>update\<close> receive.
\<close>

definition local_frame :: "'f NDTFrame_methods \<Rightarrow> LaserScan \<Rightarrow> 'f node_state \<Rightarrow> 'f" where
  "local_frame m scan st =
     loadLaser m (current_frame st) (ranges scan) (angle_min scan) (angle_increment scan)
       (range_max scan)"

subsection \<open>Initialisation\<close>

text \<open>
  The parameters \<^verbatim>\<open>main\<close> reads from the parameter server (each with its default
  already applied) and the configuration it fills in.
\<close>

record Params =
  map_size :: "32 word"
  rate :: "32 word"
  cell_side :: real
  frame_size :: "32 word"
  ndtpso_conf :: NDTPSOConfig

text \<open>
  Lines 271--314 of \<^verbatim>\<open>main\<close>: the three frames are constructed, the transform from
  \<^verbatim>\<open>base_link\<close> to the laser frame (\<open>initial_trans\<close>, looked up once) is given to the
  current frame, and the three poses are set to zero. The other variables keep their
  static initialisers. \<^verbatim>\<open>initial_pose\<close> is still zero when the current frame is
  constructed.
\<close>

definition main_setup :: "'f NDTFrame_methods \<Rightarrow> Params \<Rightarrow> Vector3d \<Rightarrow> 'f node_state" where
  "main_setup m p initial_trans =
     (let ref = NDTFrame_new m Vector3d_Zero (to_ushort (frame_size p)) (to_ushort (frame_size p))
                  (cell_side p) True (Some (ndtpso_conf p));
          gmap = NDTFrame_new m Vector3d_Zero (to_ushort (map_size p)) (to_ushort (map_size p))
                  (int_to_double (map_size p)) False None;
          cur = NDTFrame_new m Vector3d_Zero (to_ushort (frame_size p)) (to_ushort (frame_size p))
                  (cell_side p) False None;
          cur1 = setTrans m cur initial_trans
      in \<lparr>matcher_mutex = False,
          param_frame_size = frame_size p,
          param_cell_side = cell_side p,
          first_iteration = True,
          number_of_iters = 0,
          previous_pose = Vector3d_Zero,
          trans_estimate = Vector3d_Zero,
          initial_pose = Vector3d_Zero,
          current_pose = Vector3d_Zero,
          current_frame = cur1,
          ref_frame = ref,
          global_map = gmap,
          current_pub_pose = PoseStamped_default,
          iter_num = 0\<rparr>)"

subsection \<open>The publishing loop\<close>

text \<open>
  \<^verbatim>\<open>ros::spinOnce()\<close> runs the callback, in the thread of the loop, for each scan
  that is waiting; the scans are given as a list.
\<close>

fun spinOnce :: "'f NDTFrame_methods \<Rightarrow> LaserScan list \<Rightarrow> 'f node_state \<Rightarrow> 'f node_state option" where
  "spinOnce m [] st = Some st"
| "spinOnce m (scan # scans) st =
     (case scan_mathcher m scan st of
        None \<Rightarrow> None
      | Some (u, st1) \<Rightarrow> spinOnce m scans st1)"

text \<open>
  What the loop sends: a message on the topic \<^verbatim>\<open>pose\<close>, and a transform handed to
  the broadcaster. \<^verbatim>\<open>tf::Transform\<close> is kept as the origin and the quaternion that
  the loop sets; what the tf library computes from the quaternion is not modelled.
\<close>

record Transform =
  origin :: Vector3d
  rotation :: Quaternion

datatype sent =
    Published PoseStamped
  | TransformSent Transform Time string string

text \<open>
  Lines 377--381: the statements of the loop body after \<^verbatim>\<open>ros::spinOnce()\<close>. They
  read \<^verbatim>\<open>current_pub_pose\<close> and write only the local \<^verbatim>\<open>transform_\<close>, which they
  set in full before it is sent; \<open>now\<close> is the value of \<^verbatim>\<open>ros::Time::now()\<close>.
\<close>

definition publish_pose :: "Time \<Rightarrow> 'f node_state \<Rightarrow> sent list" where
  "publish_pose now st =
     (let msg = current_pub_pose st;
          q = \<lparr>quat_x = orientation_x msg, quat_y = orientation_y msg,
               quat_z = orientation_z msg, quat_w = orientation_w msg\<rparr>;
          transform = \<lparr>origin = \<lparr>coord_x = position_x msg, coord_y = position_y msg, coord_z = 0\<rparr>,
                       rotation = q\<rparr>
      in [Published msg, TransformSent transform now ''map'' ''laser''])"

text \<open>One pass through the body of the loop, and the loop over the passes that happen.\<close>

definition main_loop_iteration ::
  "'f NDTFrame_methods \<Rightarrow> LaserScan list \<Rightarrow> Time \<Rightarrow> 'f node_state \<Rightarrow> ('f node_state \<times> sent list) option" where
  "main_loop_iteration m scans now st =
     (case spinOnce m scans st of
        None \<Rightarrow> None
      | Some st1 \<Rightarrow> Some (st1, publish_pose now st1))"

fun main_loop ::
  "'f NDTFrame_methods \<Rightarrow> (LaserScan list \<times> Time) list \<Rightarrow> 'f node_state \<Rightarrow> ('f node_state \<times> sent list) option" where
  "main_loop m [] st = Some (st, [])"
| "main_loop m ((scans, now) # rest) st =
     (case main_loop_iteration m scans now st of
        None \<Rightarrow> None
      | Some (st1, out) \<Rightarrow>
          (case main_loop m rest st1 of
             None \<Rightarrow> None
           | Some (st2, outs) \<Rightarrow> Some (st2, out @ outs)))"

subsection \<open>A frame that records what is done to it\<close>

text \<open>
  Modelled from the spec: the NDT frame (\<^verbatim>\<open>ndtframe.h\<close> and its implementation are not
  among the sources). The spec gives a frame an origin pose, an extent, a cell side and
  a flag that marks the reference frame; the model keeps these as the constructor
  receives them. In place of the cell statistics it keeps the list of operations applied
  to the frame, latest first: a scan loaded, a frame fused at a pose, a trajectory
  record appended. Its alignment engine is a stand-in that moves the previous pose by one
  unit in \<open>x\<close>. The model serves to run the node on concrete inputs.
\<close>

datatype operation =
    Loaded "real list" real real real
  | Fused Vector3d "operation list"
  | PoseAdded real Vector3d

record Frame =
  frame_origin :: Vector3d
  frame_width :: "16 word"
  frame_height :: "16 word"
  frame_cell_side :: real
  is_reference :: bool
  frame_config :: "NDTPSOConfig option"
  operations :: "operation list"

definition recording :: "Frame NDTFrame_methods" where
  "recording =
     \<lparr>NDTFrame_new = (\<lambda>trans w h side calc conf.
          \<lparr>frame_origin = trans, frame_width = w, frame_height = h, frame_cell_side = side,
           is_reference = calc, frame_config = conf, operations = []\<rparr>),
      setTrans = (\<lambda>f trans. f\<lparr>frame_origin := trans\<rparr>),
      loadLaser = (\<lambda>f rs amin ainc rmax. f\<lparr>operations := Loaded rs amin ainc rmax # operations f\<rparr>),
      align = (\<lambda>f prev new. prev\<lparr>coord_x := coord_x prev + 1\<rparr>),
      update = (\<lambda>f pose new. f\<lparr>operations := Fused pose (operations new) # operations f\<rparr>),
      addPose = (\<lambda>f t pose. f\<lparr>operations := PoseAdded t pose # operations f\<rparr>)\<rparr>"

text \<open>
  The number of cells along one axis of a frame: the spec partitions the extent into
  \<open>size / cell_side\<close> cells per axis.
\<close>

definition cells_per_axis :: "Frame \<Rightarrow> real" where
  "cells_per_axis f = real (unat (frame_width f)) / frame_cell_side f"

text \<open>Concrete inputs: the default parameters of the node, a mounting offset, two scans.\<close>

definition default_params :: Params where
  "default_params =
     \<lparr>map_size = 25, rate = 30, cell_side = 0.5, frame_size = 100,
      ndtpso_conf = \<lparr>num_threads = -1, iterations = 50, populationSize = 30\<rparr>\<rparr>"

definition mount :: Vector3d where
  "mount = \<lparr>coord_x = 1, coord_y = 0, coord_z = 0\<rparr>"

definition scan1 :: LaserScan where
  "scan1 = \<lparr>scan_stamp = \<lparr>sec = 1, nsec = 0\<rparr>, angle_min = 0, angle_max = 1,
            angle_increment = 1, range_min = 0, range_max = 10, ranges = [2, 3]\<rparr>"

definition scan2 :: LaserScan where
  "scan2 = \<lparr>scan_stamp = \<lparr>sec = 2, nsec = 0\<rparr>, angle_min = 0, angle_max = 1,
            angle_increment = 1, range_min = 0, range_max = 10, ranges = [4, 5]\<rparr>"

text \<open>
  The state when the loop starts, and the states after the first and after the second
  scan, written out.
\<close>

definition state0 :: "Frame node_state" where
  "state0 = main_setup recording default_params mount"

definition state1 :: "Frame node_state" where
  "state1 =
     \<lparr>matcher_mutex = False, param_frame_size = 100, param_cell_side = 0.5,
      first_iteration = False, number_of_iters = 1,
      previous_pose = Vector3d_Zero, trans_estimate = Vector3d_Zero,
      initial_pose = Vector3d_Zero, current_pose = Vector3d_Zero,
      current_frame =
        \<lparr>frame_origin = Vector3d_Zero, frame_width = 100, frame_height = 100,
         frame_cell_side = 100, is_reference = False, frame_config = None, operations = []\<rparr>,
      ref_frame =
        \<lparr>frame_origin = Vector3d_Zero, frame_width = 100, frame_height = 100,
         frame_cell_side = 0.5, is_reference = True,
         frame_config = Some (ndtpso_conf default_params),
         operations = [Fused Vector3d_Zero [Loaded [2, 3] 0 1 10]]\<rparr>,
      global_map =
        \<lparr>frame_origin = Vector3d_Zero, frame_width = 25, frame_height = 25,
         frame_cell_side = 25, is_reference = False, frame_config = None,
         operations = [PoseAdded 1 Vector3d_Zero, Fused Vector3d_Zero [Loaded [2, 3] 0 1 10]]\<rparr>,
      current_pub_pose =
        \<lparr>header_seq = 0, header_stamp = \<lparr>sec = 1, nsec = 0\<rparr>, header_frame_id = ''map'',
         position_x = 0, position_y = 0, position_z = 0,
         orientation_x = 0, orientation_y = 0, orientation_z = 0, orientation_w = 1\<rparr>,
      iter_num = 1\<rparr>"

definition state2 :: "Frame node_state" where
  "state2 =
     \<lparr>matcher_mutex = False, param_frame_size = 100, param_cell_side = 0.5,
      first_iteration = False, number_of_iters = 2,
      previous_pose = mount, trans_estimate = Vector3d_Zero,
      initial_pose = Vector3d_Zero, current_pose = mount,
      current_frame =
        \<lparr>frame_origin = Vector3d_Zero, frame_width = 100, frame_height = 100,
         frame_cell_side = 100, is_reference = False, frame_config = None, operations = []\<rparr>,
      ref_frame =
        \<lparr>frame_origin = Vector3d_Zero, frame_width = 100, frame_height = 100,
         frame_cell_side = 0.5, is_reference = True,
         frame_config = Some (ndtpso_conf default_params),
         operations = [Fused mount [Loaded [4, 5] 0 1 10],
                       Fused Vector3d_Zero [Loaded [2, 3] 0 1 10]]\<rparr>,
      global_map =
        \<lparr>frame_origin = Vector3d_Zero, frame_width = 25, frame_height = 25,
         frame_cell_side = 25, is_reference = False, frame_config = None,
         operations = [PoseAdded 2 mount, PoseAdded 1 Vector3d_Zero,
                       Fused Vector3d_Zero [Loaded [2, 3] 0 1 10]]\<rparr>,
      current_pub_pose =
        \<lparr>header_seq = 0, header_stamp = \<lparr>sec = 2, nsec = 0\<rparr>, header_frame_id = ''map'',
         position_x = 1, position_y = 0, position_z = 0,
         orientation_x = 0, orientation_y = 0, orientation_z = 0, orientation_w = 1\<rparr>,
      iter_num = 2\<rparr>"

section \<open>The alignment engine, from the specification\<close>

text \<open>
  \<^verbatim>\<open>NDTFrame::align\<close> and the particle swarm optimisation behind it are not among the
  sources. What follows is the engine as sections 3 and 4.3 of the specification describe
  it. The objective \<open>evaluate\<close> stands for the score of a candidate pose, that is
  \<^verbatim>\<open>referenceFrame.evaluate(pose, localFrame)\<close> for the two frames of the call; the
  random numbers the engine draws are inputs.
\<close>

text \<open>Modelled from the spec: a heading is normalised to the interval \<open>(-\<pi>, \<pi>]\<close>.\<close>

definition normalize_angle :: "real \<Rightarrow> real" where
  "normalize_angle a = a - 2 * pi * of_int \<lceil>(a - pi) / (2 * pi)\<rceil>"

text \<open>Modelled from the spec: poses are composed as planar rigid transforms; \<open>oplus p d\<close> is the
  pose \<open>p\<close> followed by the offset \<open>d\<close>.\<close>

definition oplus :: "Vector3d \<Rightarrow> Vector3d \<Rightarrow> Vector3d" where
  "oplus p d =
     \<lparr>coord_x = coord_x p + coord_x d * cos (coord_z p) - coord_y d * sin (coord_z p),
      coord_y = coord_y p + coord_x d * sin (coord_z p) + coord_y d * cos (coord_z p),
      coord_z = normalize_angle (coord_z p + coord_z d)\<rparr>"

text \<open>Modelled from the spec: a particle holds a candidate offset, a velocity and the best offset
  it has seen with its score (none before its first evaluation).\<close>

record Particle =
  offset :: Vector3d
  velocity :: Vector3d
  personal_best :: "(Vector3d \<times> real) option"

text \<open>Modelled from the spec: the swarm with its global best, which starts as the zero offset;
  \<open>improved\<close> tells whether some particle has scored above it.\<close>

record Swarm =
  particles :: "Particle list"
  global_best :: Vector3d
  global_best_score :: real
  improved :: bool

text \<open>Modelled from the spec: the weights of the velocity update, the search radius per axis and
  the number of rounds.\<close>

record PSOParams =
  inertia :: real
  cognitive :: real
  social :: real
  search_radius :: Vector3d
  pso_iterations :: nat

text \<open>Modelled from the spec: sum, difference and scaling of offsets, and clipping of an offset to
  the search bounds.\<close>

definition vec_add :: "Vector3d \<Rightarrow> Vector3d \<Rightarrow> Vector3d" where
  "vec_add a b = \<lparr>coord_x = coord_x a + coord_x b, coord_y = coord_y a + coord_y b,
                  coord_z = coord_z a + coord_z b\<rparr>"

definition vec_sub :: "Vector3d \<Rightarrow> Vector3d \<Rightarrow> Vector3d" where
  "vec_sub a b = \<lparr>coord_x = coord_x a - coord_x b, coord_y = coord_y a - coord_y b,
                  coord_z = coord_z a - coord_z b\<rparr>"

definition vec_scale :: "real \<Rightarrow> Vector3d \<Rightarrow> Vector3d" where
  "vec_scale k a = \<lparr>coord_x = k * coord_x a, coord_y = k * coord_y a, coord_z = k * coord_z a\<rparr>"

definition clip :: "Vector3d \<Rightarrow> Vector3d \<Rightarrow> Vector3d" where
  "clip r a = \<lparr>coord_x = max (- coord_x r) (min (coord_x r) (coord_x a)),
               coord_y = max (- coord_y r) (min (coord_y r) (coord_y a)),
               coord_z = max (- coord_z r) (min (coord_z r) (coord_z a))\<rparr>"

text \<open>Modelled from the spec: the fitness of a particle is the score of the previous pose composed
  with its offset; higher is better.\<close>

definition fitness :: "(Vector3d \<Rightarrow> real) \<Rightarrow> Vector3d \<Rightarrow> Particle \<Rightarrow> real" where
  "fitness evaluate prev p = evaluate (oplus prev (offset p))"

text \<open>Modelled from the spec: a particle's personal best is replaced when its fitness improves on
  it.\<close>

definition score_particle :: "(Vector3d \<Rightarrow> real) \<Rightarrow> Vector3d \<Rightarrow> Particle \<Rightarrow> Particle" where
  "score_particle evaluate prev p =
     (case personal_best p of
        None \<Rightarrow> p\<lparr>personal_best := Some (offset p, fitness evaluate prev p)\<rparr>
      | Some (b, s) \<Rightarrow>
          if s < fitness evaluate prev p
          then p\<lparr>personal_best := Some (offset p, fitness evaluate prev p)\<rparr>
          else p)"

text \<open>Modelled from the spec: at the barrier that ends a round the global best is replaced by a
  particle that improves on it.\<close>

fun reduce_best :: "(Vector3d \<Rightarrow> real) \<Rightarrow> Vector3d \<Rightarrow> Particle list \<Rightarrow> Swarm \<Rightarrow> Swarm" where
  "reduce_best evaluate prev [] sw = sw"
| "reduce_best evaluate prev (p # ps) sw =
     reduce_best evaluate prev ps
       (if global_best_score sw < fitness evaluate prev p
        then sw\<lparr>global_best := offset p, global_best_score := fitness evaluate prev p,
                improved := True\<rparr>
        else sw)"

text \<open>Modelled from the spec: the velocity becomes the weighted sum of the inertia term, the pull
  towards the personal best and the pull towards the global best, the latter two scaled by
  the random factors \<open>r\<close>; the offset moves by the velocity and is clipped.\<close>

definition move_particle :: "PSOParams \<Rightarrow> real \<times> real \<Rightarrow> Vector3d \<Rightarrow> Particle \<Rightarrow> Particle" where
  "move_particle c r g p =
     (let pb = (case personal_best p of None \<Rightarrow> offset p | Some (b, s) \<Rightarrow> b);
          v = vec_add (vec_scale (inertia c) (velocity p))
                (vec_add (vec_scale (cognitive c * fst r) (vec_sub pb (offset p)))
                         (vec_scale (social c * snd r) (vec_sub g (offset p))))
      in p\<lparr>velocity := v, offset := clip (search_radius c) (vec_add (offset p) v)\<rparr>)"

text \<open>Modelled from the spec: one round: every particle is evaluated, the bests are updated, then
  every particle moves; \<open>r i\<close> are the random factors of particle \<open>i\<close>.\<close>

definition pso_round ::
  "PSOParams \<Rightarrow> (Vector3d \<Rightarrow> real) \<Rightarrow> (nat \<Rightarrow> real \<times> real) \<Rightarrow> Vector3d \<Rightarrow> Swarm \<Rightarrow> Swarm" where
  "pso_round c evaluate r prev sw =
     (let scored = map (score_particle evaluate prev) (particles sw);
          sw1 = reduce_best evaluate prev scored sw
      in sw1\<lparr>particles :=
               map (\<lambda>(i, p). move_particle c (r i) (global_best sw1) p) (enumerate 0 scored)\<rparr>)"

text \<open>Modelled from the spec: the rounds of one run, \<open>k\<close> counting the rounds done.\<close>

fun pso_rounds ::
  "PSOParams \<Rightarrow> (Vector3d \<Rightarrow> real) \<Rightarrow> (nat \<Rightarrow> nat \<Rightarrow> real \<times> real) \<Rightarrow> Vector3d \<Rightarrow> nat \<Rightarrow> nat
     \<Rightarrow> Swarm \<Rightarrow> Swarm" where
  "pso_rounds c evaluate rnd prev k 0 sw = sw"
| "pso_rounds c evaluate rnd prev k (Suc n) sw =
     pso_rounds c evaluate rnd prev (Suc k) n (pso_round c evaluate (rnd k) prev sw)"

text \<open>Modelled from the spec: the offsets at which the run evaluates a particle, round by round.\<close>

fun visited ::
  "PSOParams \<Rightarrow> (Vector3d \<Rightarrow> real) \<Rightarrow> (nat \<Rightarrow> nat \<Rightarrow> real \<times> real) \<Rightarrow> Vector3d \<Rightarrow> nat \<Rightarrow> nat
     \<Rightarrow> Swarm \<Rightarrow> Vector3d list" where
  "visited c evaluate rnd prev k 0 sw = []"
| "visited c evaluate rnd prev k (Suc n) sw =
     map offset (particles sw)
       @ visited c evaluate rnd prev (Suc k) n (pso_round c evaluate (rnd k) prev sw)"

text \<open>Modelled from the spec: the swarm is set up from random perturbations (clipped to the search
  radius) and random velocities, one pair per particle; the global best is the zero offset
  with its score.\<close>

definition initial_swarm ::
  "PSOParams \<Rightarrow> (Vector3d \<Rightarrow> real) \<Rightarrow> (Vector3d \<times> Vector3d) list \<Rightarrow> Vector3d \<Rightarrow> Swarm" where
  "initial_swarm c evaluate init prev =
     \<lparr>particles =
        map (\<lambda>(d, v). \<lparr>offset = clip (search_radius c) d, velocity = v, personal_best = None\<rparr>) init,
      global_best = Vector3d_Zero,
      global_best_score = evaluate (oplus prev Vector3d_Zero),
      improved = False\<rparr>"

text \<open>Modelled from the spec: after the rounds the global best offset composed with the previous
  pose is accepted; when no particle improved on the zero offset the previous pose is
  returned unchanged.\<close>

definition align_spec ::
  "PSOParams \<Rightarrow> (Vector3d \<Rightarrow> real) \<Rightarrow> (nat \<Rightarrow> nat \<Rightarrow> real \<times> real) \<Rightarrow> (Vector3d \<times> Vector3d) list
     \<Rightarrow> Vector3d \<Rightarrow> Vector3d" where
  "align_spec c evaluate rnd init prev =
     (let sw = pso_rounds c evaluate rnd prev 0 (pso_iterations c)
                 (initial_swarm c evaluate init prev)
      in if improved sw then oplus prev (global_best sw) else prev)"

text \<open>Modelled from the spec: all the offsets a call evaluates.\<close>

definition candidates ::
  "PSOParams \<Rightarrow> (Vector3d \<Rightarrow> real) \<Rightarrow> (nat \<Rightarrow> nat \<Rightarrow> real \<times> real) \<Rightarrow> (Vector3d \<times> Vector3d) list
     \<Rightarrow> Vector3d \<Rightarrow> Vector3d list" where
  "candidates c evaluate rnd init prev =
     visited c evaluate rnd prev 0 (pso_iterations c) (initial_swarm c evaluate init prev)"

text \<open>A small swarm for concrete runs: one particle, two rounds.\<close>

definition demo_pso :: PSOParams where
  "demo_pso = \<lparr>inertia = 0.5, cognitive = 1, social = 1,
               search_radius = \<lparr>coord_x = 2, coord_y = 2, coord_z = 1\<rparr>, pso_iterations = 2\<rparr>"

definition demo_init :: "(Vector3d \<times> Vector3d) list" where
  "demo_init = [(\<lparr>coord_x = 1, coord_y = 0, coord_z = 0\<rparr>, Vector3d_Zero)]"

section \<open>Properties of the node\<close>

subsection \<open>Auxiliary facts\<close>

lemmas cycle_defs = alignment_cycle_def load_scan_def estimate_pose_def accept_pose_def
  save_map_data_def fill_pub_pose_def reallocate_frame_def count_iteration_def mutex_unlock_def

lemmas input_defs = state0_def state1_def state2_def main_setup_def
  recording_def default_params_def scan1_def scan2_def mount_def Vector3d_Zero_def
  PoseStamped_default_def to_ushort_def int_to_double_def toSec_def Time_Zero_def
  SAVE_DATA_TO_FILE_EACH_NUM_ITERS_def DEFAULT_PUBLISHED_POSE_FRAME_ID_def

text \<open>The callback returns exactly when it finds the mutex free.\<close>

lemma scan_mathcher_unlocked:
  "\<not> matcher_mutex st \<Longrightarrow>
   scan_mathcher m scan st =
     Some ((), mutex_unlock (alignment_cycle m scan (st\<lparr>matcher_mutex := True\<rparr>)))"
  by (simp add: scan_mathcher_def mutex_lock_def)

lemma scan_mathcher_locked: "matcher_mutex st \<Longrightarrow> scan_mathcher m scan st = None"
  by (simp add: scan_mathcher_def mutex_lock_def)

lemma setup_unlocked: "\<not> matcher_mutex (main_setup m p tr)"
  by (simp add: main_setup_def Let_def)

text \<open>With no roll and no pitch the quaternion is a rotation about the vertical axis.\<close>

lemma setRPY_yaw:
  "setRPY 0 0 yaw = \<lparr>quat_x = 0, quat_y = 0, quat_z = sin (yaw / 2), quat_w = cos (yaw / 2)\<rparr>"
  by (simp add: setRPY_def Let_def)

text \<open>The two concrete cycles: the first scan leads to \<open>state1\<close>, the second to \<open>state2\<close>.\<close>

lemma first_run: "scan_mathcher recording scan1 state0 = Some ((), state1)"
  by (simp add: scan_mathcher_def mutex_lock_def cycle_defs input_defs setRPY_yaw Let_def)

lemma second_run: "scan_mathcher recording scan2 state1 = Some ((), state2)"
  by (simp add: scan_mathcher_def mutex_lock_def cycle_defs input_defs setRPY_yaw Let_def)

text \<open>
  A run of callbacks from a state with the mutex free returns, leaves the mutex free and
  the parameters and the initial pose as they were, and, when at least one scan was
  processed, leaves the current frame as the last cycle allocated it.
\<close>

lemma spinOnce_run:
  "\<not> matcher_mutex st \<Longrightarrow>
   \<exists>st'. spinOnce m scans st = Some st' \<and> \<not> matcher_mutex st'
     \<and> param_frame_size st' = param_frame_size st
     \<and> param_cell_side st' = param_cell_side st
     \<and> initial_pose st' = initial_pose st
     \<and> (scans \<noteq> [] \<longrightarrow>
          current_frame st' =
            NDTFrame_new m (initial_pose st) (to_ushort (param_frame_size st))
              (to_ushort (param_frame_size st)) (int_to_double (param_frame_size st)) False None)"
proof (induction scans arbitrary: st)
  case Nil
  then show ?case by simp
next
  case (Cons scan scans)
  let ?st1 = "mutex_unlock (alignment_cycle m scan (st\<lparr>matcher_mutex := True\<rparr>))"
  have step: "scan_mathcher m scan st = Some ((), ?st1)"
    using Cons.prems by (rule scan_mathcher_unlocked)
  have keep: "\<not> matcher_mutex ?st1" "param_frame_size ?st1 = param_frame_size st"
    "param_cell_side ?st1 = param_cell_side st" "initial_pose ?st1 = initial_pose st"
    "current_frame ?st1 =
       NDTFrame_new m (initial_pose st) (to_ushort (param_frame_size st))
         (to_ushort (param_frame_size st)) (int_to_double (param_frame_size st)) False None"
    by (simp_all add: cycle_defs Let_def)
  from Cons.IH [OF keep(1)] obtain st' where
    run: "spinOnce m scans ?st1 = Some st'" "\<not> matcher_mutex st'"
      "param_frame_size st' = param_frame_size ?st1"
      "param_cell_side st' = param_cell_side ?st1"
      "initial_pose st' = initial_pose ?st1"
      "scans \<noteq> [] \<longrightarrow> current_frame st' =
         NDTFrame_new m (initial_pose ?st1) (to_ushort (param_frame_size ?st1))
           (to_ushort (param_frame_size ?st1)) (int_to_double (param_frame_size ?st1)) False None"
    by blast
  show ?case
  proof (cases scans)
    case Nil
    with step keep show ?thesis by simp
  next
    case (Cons s ss)
    with step keep run show ?thesis by simp
  qed
qed

text \<open>Passes through the loop in which no scan is waiting leave the state as it is.\<close>

lemma main_loop_idle:
  "main_loop m (map (\<lambda>t. ([], t)) ts) st = Some (st, concat (map (\<lambda>t. publish_pose t st) ts))"
  by (induction ts) (simp_all add: main_loop_iteration_def)

text \<open>
  The counter \<^verbatim>\<open>iter_num\<close> stays below ten and counts the cycles modulo ten.
\<close>

lemma counter_step:
  fixes w :: "32 word"
  assumes "unat w < 10"
  shows "unat ((w + 1) mod 10) = (unat w + 1) mod 10"
proof -
  have "unat (w + 1) = unat w + 1"
    using assms by (simp add: unat_word_ariths)
  then show ?thesis by (simp add: unat_mod)
qed

lemma cycle_counter:
  "iter_num (mutex_unlock (alignment_cycle m scan st)) = (iter_num st + 1) mod 10"
  by (simp add: cycle_defs Let_def SAVE_DATA_TO_FILE_EACH_NUM_ITERS_def)

lemma spinOnce_counter:
  "\<not> matcher_mutex st \<Longrightarrow> unat (iter_num st) < 10 \<Longrightarrow>
   \<exists>st'. spinOnce m scans st = Some st'
     \<and> unat (iter_num st') = (unat (iter_num st) + length scans) mod 10"
proof (induction scans arbitrary: st)
  case Nil
  then show ?case by simp
next
  case (Cons scan scans)
  let ?st1 = "mutex_unlock (alignment_cycle m scan (st\<lparr>matcher_mutex := True\<rparr>))"
  have step: "scan_mathcher m scan st = Some ((), ?st1)"
    using Cons.prems(1) by (rule scan_mathcher_unlocked)
  have free: "\<not> matcher_mutex ?st1"
    by (simp add: cycle_defs Let_def)
  have count: "unat (iter_num ?st1) = (unat (iter_num st) + 1) mod 10"
    using counter_step [OF Cons.prems(2)] by (simp add: cycle_counter)
  then have small: "unat (iter_num ?st1) < 10"
    by simp
  from Cons.IH [OF free small] obtain st' where
    "spinOnce m scans ?st1 = Some st'"
    "unat (iter_num st') = (unat (iter_num ?st1) + length scans) mod 10"
    by blast
  with step count show ?case
    by (simp add: mod_simps)
qed

text \<open>What one cycle fuses, in terms of the counter it finds.\<close>

lemma cycle_fuses:
  assumes "\<not> matcher_mutex st"
  shows "\<exists>st'. scan_mathcher m scan st = Some ((), st')
           \<and> ref_frame st' = update m (ref_frame st) (current_pose st') (local_frame m scan st)
           \<and> global_map st' =
               addPose m
                 (if iter_num st = 0
                  then update m (global_map st) (current_pose st') (local_frame m scan st)
                  else global_map st)
                 (toSec (scan_stamp scan)) (current_pose st')"
  using assms
  by (simp add: scan_mathcher_unlocked cycle_defs local_frame_def Let_def)

text \<open>
  Once a scan has been processed the flag \<^verbatim>\<open>first_iteration\<close> is off, and it stays
  off.
\<close>

lemma spinOnce_later:
  "\<not> matcher_mutex st \<Longrightarrow> scans \<noteq> [] \<or> \<not> first_iteration st \<Longrightarrow>
   \<exists>st'. spinOnce m scans st = Some st' \<and> \<not> matcher_mutex st' \<and> \<not> first_iteration st'"
proof (induction scans arbitrary: st)
  case Nil
  then show ?case by simp
next
  case (Cons scan scans)
  let ?st1 = "mutex_unlock (alignment_cycle m scan (st\<lparr>matcher_mutex := True\<rparr>))"
  have step: "scan_mathcher m scan st = Some ((), ?st1)"
    using Cons.prems(1) by (rule scan_mathcher_unlocked)
  have free: "\<not> matcher_mutex ?st1" and later: "scans \<noteq> [] \<or> \<not> first_iteration ?st1"
    by (simp_all add: cycle_defs Let_def)
  from Cons.IH [OF free later] step show ?case by simp
qed

text \<open>What a cycle does when it finds the flag off.\<close>

lemma later_cycle_aligns:
  assumes "\<not> first_iteration st" and "\<not> matcher_mutex st"
  shows "\<exists>st'. scan_mathcher m scan st = Some ((), st')
           \<and> current_pose st' = align m (ref_frame st) (previous_pose st) (local_frame m scan st)
           \<and> previous_pose st' = current_pose st'
           \<and> ref_frame st' = update m (ref_frame st) (current_pose st') (local_frame m scan st)"
  using assms by (simp add: scan_mathcher_unlocked cycle_defs local_frame_def Let_def)

text \<open>
  A frame size from 1 to 65535 survives the conversion to \<^verbatim>\<open>unsigned short\<close>, so a
  frame whose cell side is its own size has one cell per axis.
\<close>

lemma one_cell_per_axis:
  fixes n :: "32 word"
  assumes "0 < sint n" and "sint n < 65536"
  shows "real (unat (to_ushort n)) / int_to_double n = 1"
proof -
  define k where "k = unat n"
  have "uint n = take_bit 32 (sint n)"
    using uint_sint [of n] by simp
  also have "\<dots> = sint n"
    using assms by (simp add: take_bit_int_eq_self)
  finally have eq: "uint n = sint n" .
  then have small: "k < 65536" and pos: "0 < k"
    using assms by (simp_all add: k_def unat_eq_nat_uint)
  have "unat (to_ushort n) = take_bit 16 (unat n)"
    by (simp add: to_ushort_def unsigned_ucast_eq)
  also have "\<dots> = k"
    using small by (simp add: k_def take_bit_nat_eq_self)
  finally have width: "unat (to_ushort n) = k" .
  have side: "int_to_double n = real k"
    using eq [symmetric] by (simp add: k_def int_to_double_def)
  from pos have "real k / real k = 1"
    by simp
  then show ?thesis
    by (simp only: width side)
qed

subsection \<open>The alignment cycle\<close>

text \<open>
  Claim C3. For a scan that comes after the first, that is after the scans \<open>scans\<close>,
  at least one, processed since the initialisation, the cycle returns; the accepted pose
  is the one \<^verbatim>\<open>align\<close> finds for the local frame against the reference frame as it was
  before the cycle, starting from the previous pose; the previous pose becomes that
  accepted pose; and the reference frame is then fused with the local frame at exactly
  that pose.
\<close>

theorem later_scan_aligned_then_fused:
  assumes "scans \<noteq> []"
  shows "\<exists>st st'. spinOnce m scans (main_setup m p tr) = Some st
           \<and> scan_mathcher m scan st = Some ((), st')
           \<and> current_pose st' = align m (ref_frame st) (previous_pose st) (local_frame m scan st)
           \<and> previous_pose st' = current_pose st'
           \<and> ref_frame st' = update m (ref_frame st) (current_pose st') (local_frame m scan st)"
proof -
  from assms have "scans \<noteq> [] \<or> \<not> first_iteration (main_setup m p tr)"
    by simp
  from spinOnce_later [OF setup_unlocked this] obtain st where
    run: "spinOnce m scans (main_setup m p tr) = Some st"
    and free: "\<not> matcher_mutex st" and later: "\<not> first_iteration st"
    by blast
  from later_cycle_aligns [OF later free, of m scan] run show ?thesis
    by blast
qed

theorem later_scan_aligned_then_fused_witness:
  "[scan1] \<noteq> []
   \<and> (\<exists>st st'. spinOnce recording [scan1] state0 = Some st
         \<and> scan_mathcher recording scan2 st = Some ((), st')
         \<and> current_pose st' = mount \<and> previous_pose st' = mount
         \<and> operations (ref_frame st') =
             [Fused mount [Loaded [4, 5] 0 1 10], Fused Vector3d_Zero [Loaded [2, 3] 0 1 10]])"
  using later_scan_aligned_then_fused [of "[scan1]" recording default_params mount scan2]
  by (simp add: first_run second_run state0_def [symmetric]) (simp add: local_frame_def input_defs)

text \<open>
  Claim C9. On the first scan after the initialisation the cycle returns without any use
  of \<^verbatim>\<open>align\<close> (the result is the same whatever \<^verbatim>\<open>align\<close> is); the accepted pose
  is the previous pose, which is the initial pose; and both the reference frame and the
  map accumulator are fused with the local frame of that scan at that pose, the map
  accumulator receiving the trajectory record after it.
\<close>

theorem first_scan_keeps_initial_pose:
  "\<exists>st'. scan_mathcher m scan (main_setup m p tr) = Some ((), st')
     \<and> current_pose st' = previous_pose (main_setup m p tr)
     \<and> previous_pose st' = previous_pose (main_setup m p tr)
     \<and> previous_pose (main_setup m p tr) = initial_pose (main_setup m p tr)
     \<and> ref_frame st' =
         update m (ref_frame (main_setup m p tr)) (previous_pose (main_setup m p tr))
           (local_frame m scan (main_setup m p tr))
     \<and> global_map st' =
         addPose m
           (update m (global_map (main_setup m p tr)) (previous_pose (main_setup m p tr))
              (local_frame m scan (main_setup m p tr)))
           (toSec (scan_stamp scan)) (previous_pose (main_setup m p tr))
     \<and> (\<forall>a. scan_mathcher (m\<lparr>align := a\<rparr>) scan (main_setup m p tr) = Some ((), st'))"
  by (simp add: scan_mathcher_def mutex_lock_def cycle_defs local_frame_def main_setup_def Let_def)

text \<open>
  Claim C4, as stated, fails: the map accumulator does not receive every scan. The second
  scan is fused into the reference frame only; the map accumulator gets its trajectory
  record and no fusion.
\<close>

theorem map_accumulator_subsampled:
  "scan_mathcher recording scan2 state1 = Some ((), state2)
   \<and> global_map state2 \<noteq>
       addPose recording
         (update recording (global_map state1) (current_pose state2)
            (local_frame recording scan2 state1))
         (toSec (scan_stamp scan2)) (current_pose state2)
   \<and> operations (global_map state2) =
       [PoseAdded 2 mount, PoseAdded 1 Vector3d_Zero, Fused Vector3d_Zero [Loaded [2, 3] 0 1 10]]"
  by (simp add: scan_mathcher_def mutex_lock_def cycle_defs input_defs setRPY_yaw local_frame_def Let_def)

text \<open>
  Claim C4, amended. Every cycle fuses the local frame into the reference frame and
  appends a trajectory record to the map accumulator. The local frame is fused into the
  map accumulator only in every tenth cycle (\<^verbatim>\<open>SAVE_DATA_TO_FILE_EACH_NUM_ITERS\<close>),
  starting with the first: in the cycle of a scan that comes after \<open>scans\<close>, exactly when
  the number of those earlier scans is a multiple of ten.
\<close>

theorem map_fused_every_tenth_cycle:
  "\<exists>st st'. spinOnce m scans (main_setup m p tr) = Some st
     \<and> scan_mathcher m scan st = Some ((), st')
     \<and> ref_frame st' = update m (ref_frame st) (current_pose st') (local_frame m scan st)
     \<and> global_map st' =
         addPose m
           (if length scans mod 10 = 0
            then update m (global_map st) (current_pose st') (local_frame m scan st)
            else global_map st)
           (toSec (scan_stamp scan)) (current_pose st')"
proof -
  have start: "unat (iter_num (main_setup m p tr)) < 10" "unat (iter_num (main_setup m p tr)) = 0"
    by (simp_all add: main_setup_def Let_def)
  from spinOnce_run [OF setup_unlocked, of m scans m p tr] obtain st where
    run: "spinOnce m scans (main_setup m p tr) = Some st" and free: "\<not> matcher_mutex st"
    by blast
  from spinOnce_counter [OF setup_unlocked start(1), of m scans] run start(2)
  have "unat (iter_num st) = length scans mod 10"
    by simp
  then have zero: "iter_num st = 0 \<longleftrightarrow> length scans mod 10 = 0"
    by (simp add: unat_eq_0 [symmetric])
  from cycle_fuses [OF free, of m scan] obtain st' where
    "scan_mathcher m scan st = Some ((), st')"
    "ref_frame st' = update m (ref_frame st) (current_pose st') (local_frame m scan st)"
    "global_map st' =
       addPose m
         (if iter_num st = 0
          then update m (global_map st) (current_pose st') (local_frame m scan st)
          else global_map st)
         (toSec (scan_stamp scan)) (current_pose st')"
    by blast
  with run zero show ?thesis by auto
qed

theorem map_fused_every_tenth_cycle_witness:
  "\<exists>st st'. spinOnce recording [scan1] state0 = Some st
     \<and> scan_mathcher recording scan2 st = Some ((), st')
     \<and> operations (ref_frame st') =
         [Fused mount [Loaded [4, 5] 0 1 10], Fused Vector3d_Zero [Loaded [2, 3] 0 1 10]]
     \<and> operations (global_map st') =
         [PoseAdded 2 mount, PoseAdded 1 Vector3d_Zero,
          Fused Vector3d_Zero [Loaded [2, 3] 0 1 10]]"
  using map_fused_every_tenth_cycle [of recording "[scan1]" default_params mount scan2]
  by (simp add: first_run second_run state0_def [symmetric]) (simp add: local_frame_def input_defs)

subsection \<open>The local frame\<close>

text \<open>
  Claim C5, as stated, fails: with the default parameters (frame size 100, cell side 0.5)
  the local frame allocated at the end of the first cycle has cell side 100, not the
  configured 0.5, and so one cell per axis where the frame built at start-up has 200.
\<close>

theorem reallocated_frame_cell_side_differs:
  "scan_mathcher recording scan1 state0 = Some ((), state1)
   \<and> param_cell_side state1 = 0.5
   \<and> frame_cell_side (current_frame state0) = 0.5
   \<and> frame_cell_side (current_frame state1) = 100
   \<and> cells_per_axis (current_frame state0) = 200
   \<and> cells_per_axis (current_frame state1) = 1"
  by (simp add: scan_mathcher_def mutex_lock_def cycle_defs input_defs setRPY_yaw
      cells_per_axis_def Let_def)

text \<open>
  Claim C5, amended. The local frame built at start-up is constructed with width and
  height equal to the configured frame size (converted to \<^verbatim>\<open>unsigned short\<close>) and with
  the configured cell side. Every cycle ends with a fresh local frame constructed with
  the same width and height, the initial pose as origin and the flag off, but with the
  frame size itself as cell side; the configured cell side is kept in the state and not
  used for it. For a frame size from 1 to 65535 the width of that frame divided by its
  cell side is 1.
\<close>

theorem reallocated_frame_construction:
  assumes "\<not> matcher_mutex st"
  shows "current_frame (main_setup m p tr) =
           setTrans m
             (NDTFrame_new m Vector3d_Zero (to_ushort (frame_size p)) (to_ushort (frame_size p))
                (cell_side p) False None) tr
         \<and> param_frame_size (main_setup m p tr) = frame_size p
         \<and> param_cell_side (main_setup m p tr) = cell_side p
         \<and> (\<exists>st'. scan_mathcher m scan st = Some ((), st')
               \<and> current_frame st' =
                   NDTFrame_new m (initial_pose st) (to_ushort (param_frame_size st))
                     (to_ushort (param_frame_size st)) (int_to_double (param_frame_size st))
                     False None
               \<and> param_frame_size st' = param_frame_size st
               \<and> param_cell_side st' = param_cell_side st
               \<and> initial_pose st' = initial_pose st)
         \<and> (0 < sint (param_frame_size st) \<and> sint (param_frame_size st) < 65536 \<longrightarrow>
               real (unat (to_ushort (param_frame_size st))) / int_to_double (param_frame_size st)
                 = 1)"
proof -
  have cells: "0 < sint (param_frame_size st) \<and> sint (param_frame_size st) < 65536 \<longrightarrow>
      real (unat (to_ushort (param_frame_size st))) / int_to_double (param_frame_size st) = 1"
    using one_cell_per_axis [of "param_frame_size st"] by blast
  show ?thesis
    using assms cells
    by (simp add: scan_mathcher_unlocked cycle_defs main_setup_def Let_def
        del: divide_eq_eq_1 divide_eq_1_iff)
qed

theorem reallocated_frame_construction_witness:
  "\<not> matcher_mutex state0
   \<and> 0 < sint (param_frame_size state0) \<and> sint (param_frame_size state0) < 65536
   \<and> frame_width (current_frame state0) = 100 \<and> frame_height (current_frame state0) = 100
   \<and> frame_cell_side (current_frame state0) = 0.5
   \<and> (\<exists>st'. scan_mathcher recording scan1 state0 = Some ((), st')
         \<and> frame_width (current_frame st') = 100 \<and> frame_height (current_frame st') = 100
         \<and> frame_cell_side (current_frame st') = 100
         \<and> \<not> is_reference (current_frame st')
         \<and> param_cell_side st' = 0.5)
   \<and> real (unat (to_ushort (param_frame_size state0))) / int_to_double (param_frame_size state0) = 1"
  using reallocated_frame_construction [of state0 recording default_params mount scan1]
  by (simp add: first_run) (simp add: input_defs)

text \<open>
  Claim C6, as stated, fails: the first scan is loaded into a frame whose origin is the
  mounting offset, the second into a frame whose origin is zero.
\<close>

theorem later_frames_lack_mount_offset:
  "frame_origin (local_frame recording scan1 state0) = mount
   \<and> scan_mathcher recording scan1 state0 = Some ((), state1)
   \<and> frame_origin (local_frame recording scan2 state1) = Vector3d_Zero
   \<and> frame_origin (local_frame recording scan2 state1)
       \<noteq> frame_origin (local_frame recording scan1 state0)"
  by (simp add: scan_mathcher_def mutex_lock_def cycle_defs input_defs setRPY_yaw
      local_frame_def Let_def)

text \<open>
  Claim C6, amended. The offset looked up at start-up is given (\<^verbatim>\<open>setTrans\<close>) to the
  local frame built at start-up, before anything is loaded into it, so the first scan is
  loaded into a frame that carries it. After one or more cycles the next scan is loaded
  into a frame that was constructed with origin zero and to which \<^verbatim>\<open>setTrans\<close> was
  not applied.
\<close>

theorem mount_offset_on_first_frame_only:
  assumes "scans \<noteq> []"
  shows "local_frame m scan (main_setup m p tr) =
           loadLaser m
             (setTrans m
                (NDTFrame_new m Vector3d_Zero (to_ushort (frame_size p)) (to_ushort (frame_size p))
                   (cell_side p) False None) tr)
             (ranges scan) (angle_min scan) (angle_increment scan) (range_max scan)
         \<and> (\<exists>st'. spinOnce m scans (main_setup m p tr) = Some st'
               \<and> local_frame m scan st' =
                   loadLaser m
                     (NDTFrame_new m Vector3d_Zero (to_ushort (frame_size p))
                        (to_ushort (frame_size p)) (int_to_double (frame_size p)) False None)
                     (ranges scan) (angle_min scan) (angle_increment scan) (range_max scan))"
proof -
  have first: "local_frame m scan (main_setup m p tr) =
           loadLaser m
             (setTrans m
                (NDTFrame_new m Vector3d_Zero (to_ushort (frame_size p)) (to_ushort (frame_size p))
                   (cell_side p) False None) tr)
             (ranges scan) (angle_min scan) (angle_increment scan) (range_max scan)"
    by (simp add: local_frame_def main_setup_def Let_def)
  have params: "param_frame_size (main_setup m p tr) = frame_size p"
    "initial_pose (main_setup m p tr) = Vector3d_Zero"
    by (simp_all add: main_setup_def Let_def)
  from spinOnce_run [OF setup_unlocked, of m scans m p tr] assms params
  obtain st' where "spinOnce m scans (main_setup m p tr) = Some st'"
    "current_frame st' =
       NDTFrame_new m Vector3d_Zero (to_ushort (frame_size p))
         (to_ushort (frame_size p)) (int_to_double (frame_size p)) False None"
    by auto
  then have "\<exists>st'. spinOnce m scans (main_setup m p tr) = Some st'
               \<and> local_frame m scan st' =
                   loadLaser m
                     (NDTFrame_new m Vector3d_Zero (to_ushort (frame_size p))
                        (to_ushort (frame_size p)) (int_to_double (frame_size p)) False None)
                     (ranges scan) (angle_min scan) (angle_increment scan) (range_max scan)"
    by (simp add: local_frame_def)
  with first show ?thesis by simp
qed

theorem mount_offset_on_first_frame_only_witness:
  "[scan1] \<noteq> []
   \<and> frame_origin (local_frame recording scan1 state0) = mount
   \<and> (\<exists>st'. spinOnce recording [scan1] state0 = Some st'
         \<and> frame_origin (local_frame recording scan2 st') = Vector3d_Zero)"
  using mount_offset_on_first_frame_only [of "[scan1]" recording scan2 default_params mount]
  by (simp add: first_run state0_def [symmetric])
    (simp add: local_frame_def input_defs)

subsection \<open>What the callback hands back\<close>

text \<open>
  Claim C7, as stated, fails: the callback returns \<^verbatim>\<open>void\<close>. Two calls that accept
  different poses hand the same value to their caller.
\<close>

theorem callback_returns_no_pose:
  "scan_mathcher recording scan1 state0 = Some ((), state1)
   \<and> scan_mathcher recording scan2 state1 = Some ((), state2)
   \<and> current_pose state1 \<noteq> current_pose state2"
  by (simp add: scan_mathcher_def mutex_lock_def cycle_defs input_defs setRPY_yaw Let_def)

text \<open>
  Claim C7, amended. A call that finds the mutex free returns nothing to its caller; it
  leaves the accepted pose in the state: \<^verbatim>\<open>previous_pose\<close> and \<^verbatim>\<open>current_pose\<close> hold
  it, and \<^verbatim>\<open>current_pub_pose\<close> holds the time stamp of the scan, the frame id
  \<^verbatim>\<open>map\<close>, the position \<open>(x, y, 0)\<close> and the orientation
  \<open>(0, 0, sin (\<theta>/2), cos (\<theta>/2))\<close> of that pose.
\<close>

theorem callback_leaves_pose_in_state:
  assumes "\<not> matcher_mutex st"
  shows "\<exists>st'. scan_mathcher m scan st = Some ((), st')
           \<and> previous_pose st' = current_pose st'
           \<and> current_pub_pose st' =
               (current_pub_pose st)
                 \<lparr>header_stamp := scan_stamp scan,
                  header_frame_id := ''map'',
                  position_x := coord_x (current_pose st'),
                  position_y := coord_y (current_pose st'),
                  position_z := 0,
                  orientation_x := 0,
                  orientation_y := 0,
                  orientation_z := sin (coord_z (current_pose st') / 2),
                  orientation_w := cos (coord_z (current_pose st') / 2)\<rparr>"
  using assms
  by (simp add: scan_mathcher_unlocked cycle_defs setRPY_yaw Let_def
      DEFAULT_PUBLISHED_POSE_FRAME_ID_def)

theorem callback_leaves_pose_in_state_witness:
  "\<not> matcher_mutex state1
   \<and> (\<exists>st'. scan_mathcher recording scan2 state1 = Some ((), st')
         \<and> previous_pose st' = mount \<and> current_pose st' = mount
         \<and> current_pub_pose st' =
             \<lparr>header_seq = 0, header_stamp = \<lparr>sec = 2, nsec = 0\<rparr>, header_frame_id = ''map'',
              position_x = 1, position_y = 0, position_z = 0,
              orientation_x = 0, orientation_y = 0, orientation_z = 0, orientation_w = 1\<rparr>)"
  using callback_leaves_pose_in_state [of state1 recording scan2]
  by (simp add: second_run) (simp add: input_defs)

subsection \<open>The publishing loop\<close>

text \<open>
  Claim C8, as stated, fails. Two passes through the loop, each with one scan waiting,
  change the current pose, the previous pose and the three frames, because
  \<^verbatim>\<open>ros::spinOnce()\<close> runs the callback inside the loop; and the pose is read, in
  \<open>state1\<close> and in \<open>state2\<close>, while the mutex is free.
\<close>

theorem loop_iteration_changes_state_and_takes_no_lock:
  "main_loop recording [([scan1], \<lparr>sec = 1, nsec = 5\<rparr>), ([scan2], \<lparr>sec = 2, nsec = 5\<rparr>)] state0
     = Some (state2, publish_pose \<lparr>sec = 1, nsec = 5\<rparr> state1 @ publish_pose \<lparr>sec = 2, nsec = 5\<rparr> state2)
   \<and> \<not> matcher_mutex state1 \<and> \<not> matcher_mutex state2
   \<and> current_pose state2 \<noteq> current_pose state0
   \<and> previous_pose state2 \<noteq> previous_pose state0
   \<and> ref_frame state2 \<noteq> ref_frame state0
   \<and> current_frame state2 \<noteq> current_frame state0
   \<and> global_map state2 \<noteq> global_map state0"
  by (simp add: main_loop_iteration_def first_run second_run) (simp add: input_defs)

text \<open>
  Claim C8, amended. Passes through the loop in which no scan is waiting leave the whole
  state unchanged, as many as there are. In any pass the state after the pass is the one
  the callbacks run by \<^verbatim>\<open>ros::spinOnce()\<close> left: the statements that publish change
  nothing. They take no lock: the pose is read after the callbacks have returned, with
  the mutex free.
\<close>

theorem publishing_is_read_only_and_lock_free:
  assumes "\<not> matcher_mutex st"
  shows "main_loop m (map (\<lambda>t. ([], t)) ts) st
           = Some (st, concat (map (\<lambda>t. publish_pose t st) ts))
         \<and> (\<exists>st'. spinOnce m scans st = Some st'
               \<and> main_loop_iteration m scans now st = Some (st', publish_pose now st')
               \<and> \<not> matcher_mutex st')"
proof -
  from spinOnce_run [OF assms, of m scans] obtain st' where
    "spinOnce m scans st = Some st'" "\<not> matcher_mutex st'"
    by blast
  then have "\<exists>st'. spinOnce m scans st = Some st'
               \<and> main_loop_iteration m scans now st = Some (st', publish_pose now st')
               \<and> \<not> matcher_mutex st'"
    by (simp add: main_loop_iteration_def)
  then show ?thesis by (simp add: main_loop_idle)
qed

theorem publishing_is_read_only_and_lock_free_witness:
  "\<not> matcher_mutex state1
   \<and> main_loop recording [([], \<lparr>sec = 1, nsec = 5\<rparr>), ([], \<lparr>sec = 1, nsec = 6\<rparr>)] state1
       = Some (state1, publish_pose \<lparr>sec = 1, nsec = 5\<rparr> state1 @ publish_pose \<lparr>sec = 1, nsec = 6\<rparr> state1)
   \<and> (\<exists>st'. spinOnce recording [scan2] state1 = Some st'
         \<and> main_loop_iteration recording [scan2] \<lparr>sec = 2, nsec = 5\<rparr> state1
             = Some (st', publish_pose \<lparr>sec = 2, nsec = 5\<rparr> st')
         \<and> \<not> matcher_mutex st')"
  using publishing_is_read_only_and_lock_free
    [of state1 recording "[\<lparr>sec = 1, nsec = 5\<rparr>, \<lparr>sec = 1, nsec = 6\<rparr>]" "[scan2]" "\<lparr>sec = 2, nsec = 5\<rparr>"]
  by (simp add: second_run) (simp add: input_defs)

text \<open>
  Claim C10. After the initialisation, as long as no scan has been processed, every pass
  through the loop leaves the state as it is and sends the message as it was constructed
  (position zero, orientation quaternion zero, which is not of unit length, empty frame
  id) and a transform from \<^verbatim>\<open>map\<close> to \<^verbatim>\<open>laser\<close> with origin zero and the zero
  quaternion as rotation.
\<close>

theorem default_pose_published_before_first_scan:
  "main_loop m (map (\<lambda>t. ([], t)) ts) (main_setup m p tr)
     = Some (main_setup m p tr,
         concat (map (\<lambda>t.
           [Published
              \<lparr>header_seq = 0, header_stamp = \<lparr>sec = 0, nsec = 0\<rparr>, header_frame_id = [],
               position_x = 0, position_y = 0, position_z = 0,
               orientation_x = 0, orientation_y = 0, orientation_z = 0, orientation_w = 0\<rparr>,
            TransformSent
              \<lparr>origin = \<lparr>coord_x = 0, coord_y = 0, coord_z = 0\<rparr>,
               rotation = \<lparr>quat_x = 0, quat_y = 0, quat_z = 0, quat_w = 0\<rparr>\<rparr>
              t ''map'' ''laser'']) ts))
   \<and> first_iteration (main_setup m p tr)
   \<and> length2 \<lparr>quat_x = 0, quat_y = 0, quat_z = 0, quat_w = 0\<rparr> \<noteq> 1"
proof -
  have "publish_pose t (main_setup m p tr) =
           [Published
              \<lparr>header_seq = 0, header_stamp = \<lparr>sec = 0, nsec = 0\<rparr>, header_frame_id = [],
               position_x = 0, position_y = 0, position_z = 0,
               orientation_x = 0, orientation_y = 0, orientation_z = 0, orientation_w = 0\<rparr>,
            TransformSent
              \<lparr>origin = \<lparr>coord_x = 0, coord_y = 0, coord_z = 0\<rparr>,
               rotation = \<lparr>quat_x = 0, quat_y = 0, quat_z = 0, quat_w = 0\<rparr>\<rparr>
              t ''map'' ''laser'']" for t
    by (simp add: publish_pose_def main_setup_def PoseStamped_default_def Time_Zero_def Let_def)
  then show ?thesis
    by (simp add: main_loop_idle length2_def) (simp add: main_setup_def Let_def)
qed

section \<open>Properties of the alignment engine\<close>

lemma normalize_angle_id: "- pi < a \<Longrightarrow> a \<le> pi \<Longrightarrow> normalize_angle a = a"
proof -
  assume a: "- pi < a" "a \<le> pi"
  have "\<lceil>(a - pi) / (2 * pi)\<rceil> = 0"
  proof (rule ceiling_unique)
    show "of_int 0 - 1 < (a - pi) / (2 * pi)"
      using a pi_gt_zero by (simp add: field_simps)
    show "(a - pi) / (2 * pi) \<le> of_int 0"
      using a pi_gt_zero by (simp add: field_simps)
  qed
  then show ?thesis by (simp add: normalize_angle_def)
qed

lemma oplus_zero:
  "- pi < coord_z p \<Longrightarrow> coord_z p \<le> pi \<Longrightarrow> oplus p Vector3d_Zero = p"
  by (simp add: oplus_def Vector3d_Zero_def normalize_angle_id)

lemma offset_score_particle [simp]: "offset (score_particle evaluate prev p) = offset p"
  by (simp add: score_particle_def split: option.splits)

lemma fitness_score_particle [simp]:
  "fitness evaluate prev (score_particle evaluate prev p) = fitness evaluate prev p"
  by (simp add: fitness_def)

lemma reduce_best_sound:
  "global_best_score sw = evaluate (oplus prev (global_best sw)) \<Longrightarrow> b \<le> global_best_score sw \<Longrightarrow>
   global_best_score (reduce_best evaluate prev ps sw)
     = evaluate (oplus prev (global_best (reduce_best evaluate prev ps sw)))
   \<and> b \<le> global_best_score (reduce_best evaluate prev ps sw)"
proof (induction ps arbitrary: sw)
  case Nil
  then show ?case by simp
next
  case (Cons p ps)
  show ?case
  proof (cases "global_best_score sw < fitness evaluate prev p")
    case True
    let ?next = "sw\<lparr>global_best := offset p, global_best_score := fitness evaluate prev p,
                   improved := True\<rparr>"
    have "global_best_score ?next = evaluate (oplus prev (global_best ?next))"
      by (simp add: fitness_def)
    moreover have "b \<le> global_best_score ?next"
      using True Cons.prems(2) by simp
    ultimately show ?thesis
      using Cons.IH [of ?next] True by simp
  next
    case False
    then show ?thesis using Cons.IH [of sw] Cons.prems by simp
  qed
qed

lemma reduce_best_particles [simp]:
  "particles (reduce_best evaluate prev ps sw) = particles sw"
  by (induction ps arbitrary: sw) simp_all

lemma reduce_best_idle:
  "\<forall>p \<in> set ps. fitness evaluate prev p \<le> global_best_score sw \<Longrightarrow>
   reduce_best evaluate prev ps sw = sw"
  by (induction ps arbitrary: sw) simp_all

lemma pso_round_sound:
  assumes "global_best_score sw = evaluate (oplus prev (global_best sw))"
    and "b \<le> global_best_score sw"
  shows "global_best_score (pso_round c evaluate r prev sw)
           = evaluate (oplus prev (global_best (pso_round c evaluate r prev sw)))
         \<and> b \<le> global_best_score (pso_round c evaluate r prev sw)"
  using assms
    reduce_best_sound [where evaluate = evaluate and prev = prev and sw = sw and b = b
      and ps = "map (score_particle evaluate prev) (particles sw)"]
  by (simp add: pso_round_def Let_def)

lemma pso_rounds_sound:
  "global_best_score sw = evaluate (oplus prev (global_best sw)) \<Longrightarrow> b \<le> global_best_score sw \<Longrightarrow>
   global_best_score (pso_rounds c evaluate rnd prev k n sw)
     = evaluate (oplus prev (global_best (pso_rounds c evaluate rnd prev k n sw)))
   \<and> b \<le> global_best_score (pso_rounds c evaluate rnd prev k n sw)"
proof (induction n arbitrary: k sw)
  case 0
  then show ?case by simp
next
  case (Suc n)
  have step: "global_best_score (pso_round c evaluate (rnd k) prev sw)
           = evaluate (oplus prev (global_best (pso_round c evaluate (rnd k) prev sw)))
         \<and> b \<le> global_best_score (pso_round c evaluate (rnd k) prev sw)"
    using Suc.prems by (rule pso_round_sound [where evaluate = evaluate and prev = prev])
  show ?case
    using Suc.IH [OF step [THEN conjunct1] step [THEN conjunct2], of "Suc k"] by simp
qed

lemma pso_round_idle:
  assumes "\<forall>p \<in> set (particles sw). fitness evaluate prev p \<le> global_best_score sw"
  shows "global_best_score (pso_round c evaluate r prev sw) = global_best_score sw
         \<and> improved (pso_round c evaluate r prev sw) = improved sw"
proof -
  have "\<forall>p \<in> set (map (score_particle evaluate prev) (particles sw)).
          fitness evaluate prev p \<le> global_best_score sw"
    using assms by simp
  then have "reduce_best evaluate prev (map (score_particle evaluate prev) (particles sw)) sw = sw"
    by (rule reduce_best_idle)
  then show ?thesis by (simp add: pso_round_def Let_def)
qed

lemma pso_rounds_idle:
  "\<forall>d \<in> set (visited c evaluate rnd prev k n sw). evaluate (oplus prev d) \<le> global_best_score sw \<Longrightarrow>
   improved (pso_rounds c evaluate rnd prev k n sw) = improved sw"
proof (induction n arbitrary: k sw)
  case 0
  then show ?case by simp
next
  case (Suc n)
  from Suc.prems have now: "\<forall>p \<in> set (particles sw). fitness evaluate prev p \<le> global_best_score sw"
    by (simp add: fitness_def)
  from pso_round_idle [OF now, of c "rnd k"] have
    same: "global_best_score (pso_round c evaluate (rnd k) prev sw) = global_best_score sw"
      "improved (pso_round c evaluate (rnd k) prev sw) = improved sw"
    by simp_all
  from Suc.prems same(1) have
    "\<forall>d \<in> set (visited c evaluate rnd prev (Suc k) n (pso_round c evaluate (rnd k) prev sw)).
       evaluate (oplus prev d) \<le> global_best_score (pso_round c evaluate (rnd k) prev sw)"
    by simp
  then have "improved (pso_rounds c evaluate rnd prev (Suc k) n (pso_round c evaluate (rnd k) prev sw))
               = improved (pso_round c evaluate (rnd k) prev sw)"
    by (rule Suc.IH)
  with same(2) show ?case by simp
qed

text \<open>
  Claim C1. For a previous pose with a normalised heading, the pose the engine returns
  scores at least as high as the previous pose; and when no offset the engine evaluates
  scores above the zero offset, the engine returns the previous pose itself.
\<close>

theorem align_never_scores_below_previous_pose:
  assumes "- pi < coord_z prev" and "coord_z prev \<le> pi"
  shows "evaluate prev \<le> evaluate (align_spec c evaluate rnd init prev)
         \<and> ((\<forall>d \<in> set (candidates c evaluate rnd init prev).
               evaluate (oplus prev d) \<le> evaluate (oplus prev Vector3d_Zero))
             \<longrightarrow> align_spec c evaluate rnd init prev = prev)"
proof -
  let ?start = "initial_swarm c evaluate init prev"
  let ?final = "pso_rounds c evaluate rnd prev 0 (pso_iterations c) ?start"
  have zero: "oplus prev Vector3d_Zero = prev"
    using assms by (rule oplus_zero)
  have "global_best_score ?start = evaluate (oplus prev (global_best ?start))"
    and "evaluate prev \<le> global_best_score ?start"
    by (simp_all add: initial_swarm_def zero)
  then have "global_best_score ?final = evaluate (oplus prev (global_best ?final))
             \<and> evaluate prev \<le> global_best_score ?final"
    by (rule pso_rounds_sound [where evaluate = evaluate and prev = prev])
  then have "evaluate prev \<le> evaluate (oplus prev (global_best ?final))"
    by simp
  then have first: "evaluate prev \<le> evaluate (align_spec c evaluate rnd init prev)"
    by (simp add: align_spec_def Let_def)
  have second: "align_spec c evaluate rnd init prev = prev"
    if "\<forall>d \<in> set (candidates c evaluate rnd init prev).
          evaluate (oplus prev d) \<le> evaluate (oplus prev Vector3d_Zero)"
  proof -
    from that have
      "\<forall>d \<in> set (visited c evaluate rnd prev 0 (pso_iterations c) ?start).
         evaluate (oplus prev d) \<le> global_best_score ?start"
      by (simp add: candidates_def initial_swarm_def)
    then have "improved ?final = improved ?start"
      by (rule pso_rounds_idle)
    then have "\<not> improved ?final"
      by (simp add: initial_swarm_def)
    then show ?thesis by (simp add: align_spec_def Let_def)
  qed
  from first second show ?thesis by blast
qed

theorem align_never_scores_below_previous_pose_witness:
  "- pi < coord_z Vector3d_Zero \<and> coord_z Vector3d_Zero \<le> pi
   \<and> align_spec demo_pso coord_x (\<lambda>k i. (1, 1)) demo_init Vector3d_Zero
       = \<lparr>coord_x = 1, coord_y = 0, coord_z = 0\<rparr>
   \<and> coord_x Vector3d_Zero
       \<le> coord_x (align_spec demo_pso coord_x (\<lambda>k i. (1, 1)) demo_init Vector3d_Zero)
   \<and> candidates demo_pso (\<lambda>p. 0) (\<lambda>k i. (1, 1)) demo_init Vector3d_Zero
       = [\<lparr>coord_x = 1, coord_y = 0, coord_z = 0\<rparr>, \<lparr>coord_x = 0, coord_y = 0, coord_z = 0\<rparr>]
   \<and> align_spec demo_pso (\<lambda>p. 0) (\<lambda>k i. (1, 1)) demo_init Vector3d_Zero = Vector3d_Zero"
proof -
  have heading: "- pi < coord_z Vector3d_Zero" "coord_z Vector3d_Zero \<le> pi"
    by (simp_all add: Vector3d_Zero_def)
  have run: "align_spec demo_pso coord_x (\<lambda>k i. (1, 1)) demo_init Vector3d_Zero
               = \<lparr>coord_x = 1, coord_y = 0, coord_z = 0\<rparr>"
    by (simp add: align_spec_def demo_pso_def demo_init_def initial_swarm_def pso_round_def
        score_particle_def move_particle_def fitness_def oplus_def clip_def vec_add_def
        vec_sub_def vec_scale_def Vector3d_Zero_def normalize_angle_id Let_def numeral_2_eq_2)
  have seen: "candidates demo_pso (\<lambda>p. 0) (\<lambda>k i. (1, 1)) demo_init Vector3d_Zero
       = [\<lparr>coord_x = 1, coord_y = 0, coord_z = 0\<rparr>, \<lparr>coord_x = 0, coord_y = 0, coord_z = 0\<rparr>]"
    by (simp add: candidates_def demo_pso_def demo_init_def initial_swarm_def pso_round_def
        score_particle_def move_particle_def fitness_def oplus_def clip_def vec_add_def
        vec_sub_def vec_scale_def Vector3d_Zero_def normalize_angle_id Let_def numeral_2_eq_2)
  from align_never_scores_below_previous_pose
         [OF heading, of coord_x demo_pso "\<lambda>k i. (1, 1)" demo_init]
  have better: "coord_x Vector3d_Zero
       \<le> coord_x (align_spec demo_pso coord_x (\<lambda>k i. (1, 1)) demo_init Vector3d_Zero)"
    by simp
  from align_never_scores_below_previous_pose
         [OF heading, of "\<lambda>p. 0" demo_pso "\<lambda>k i. (1, 1)" demo_init]
  have kept: "align_spec demo_pso (\<lambda>p. 0) (\<lambda>k i. (1, 1)) demo_init Vector3d_Zero = Vector3d_Zero"
    by simp
  from heading run seen better kept show ?thesis by simp
qed

end
